theory Spec2Isabelle
  imports Complex_Main "HOL-Library.Sublist" "HOL-Library.Multiset"
begin

section \<open>Tables of player statistics\<close>

text \<open>
  The pipeline of \<^verbatim>\<open>main.py\<close> works on a pandas DataFrame with the eight columns
  \<^verbatim>\<open>Player, Role, Team, Matches, Runs, Bat_SR, Wickets, Econ\<close>. A cell of the table is
  missing (\<^verbatim>\<open>NaN\<close>, \<^verbatim>\<open>None\<close>, \<^verbatim>\<open>pd.NA\<close>), a number, or a text. Numbers are
  exact reals: the rounding of IEEE doubles and the values \<^verbatim>\<open>inf\<close> are left out of the model,
  a \<^verbatim>\<open>NaN\<close> is the missing cell. A record of the table is a row: a cell for every column.
  The table keeps its records in order. A column has a numeric dtype when it holds no text.
\<close>

datatype cell = NA | Number real | Str string

datatype column = Player | Role | Team | Matches | Runs | Bat_SR | Wickets | Econ

type_synonym row = "column \<Rightarrow> cell"

type_synonym frame = "row list"

type_synonym series = "cell list"

fun isna :: "cell \<Rightarrow> bool" where
  "isna NA = True"
| "isna (Number v) = False"
| "isna (Str s) = False"

text \<open>\<^verbatim>\<open>df[col]\<close> reads a column, \<^verbatim>\<open>df[col] = s\<close> writes it (the series \<^verbatim>\<open>s\<close> comes
  from the same table, so both have the same length).\<close>

definition getitem :: "frame \<Rightarrow> column \<Rightarrow> series" where
  "getitem df col = map (\<lambda>r. r col) df"

definition setitem :: "frame \<Rightarrow> column \<Rightarrow> series \<Rightarrow> frame" where
  "setitem df col s = map (\<lambda>(r, v). r(col := v)) (zip df s)"

text \<open>\<^verbatim>\<open>DataFrame.fillna(value: dict)\<close>: in every column the dict names, a missing cell gets
  the dict's value; other cells and other columns stay. \<^verbatim>\<open>Series.fillna(v)\<close> does the same
  on one column.\<close>

definition fillna :: "(column \<rightharpoonup> cell) \<Rightarrow> frame \<Rightarrow> frame" where
  "fillna val df =
     map (\<lambda>r col. case val col of
                     None \<Rightarrow> r col
                   | Some v \<Rightarrow> (if isna (r col) then v else r col)) df"

definition series_fillna :: "cell \<Rightarrow> series \<Rightarrow> series" where
  "series_fillna v s = map (\<lambda>c. if isna c then v else c) s"

text \<open>\<^verbatim>\<open>pd.to_numeric(s, errors='coerce')\<close>: a number stays, a missing cell stays missing, a
  text is parsed, and a text that is no number becomes \<^verbatim>\<open>NaN\<close>. The parser of numeric
  texts belongs to pandas; it is the parameter \<open>parse\<close>, which answers \<open>None\<close> for a text that
  is no number.\<close>

fun to_numeric_cell :: "(string \<Rightarrow> real option) \<Rightarrow> cell \<Rightarrow> cell" where
  "to_numeric_cell parse NA = NA"
| "to_numeric_cell parse (Number v) = Number v"
| "to_numeric_cell parse (Str s) = (case parse s of None \<Rightarrow> NA | Some v \<Rightarrow> Number v)"

definition to_numeric :: "(string \<Rightarrow> real option) \<Rightarrow> series \<Rightarrow> series" where
  "to_numeric parse s = map (to_numeric_cell parse) s"

text \<open>\<^verbatim>\<open>DataFrame.drop_duplicates(subset)\<close> with the default \<^verbatim>\<open>keep='first'\<close>: a record
  is dropped when an earlier record has the same cells in the columns of \<open>subset_cols\<close>.\<close>

definition row_key :: "column list \<Rightarrow> row \<Rightarrow> cell list" where
  "row_key subset_cols r = map r subset_cols"

fun drop_seen :: "column list \<Rightarrow> cell list list \<Rightarrow> frame \<Rightarrow> frame" where
  "drop_seen subset_cols seen [] = []"
| "drop_seen subset_cols seen (r # rs) =
     (if row_key subset_cols r \<in> set seen then drop_seen subset_cols seen rs
      else r # drop_seen subset_cols (row_key subset_cols r # seen) rs)"

definition drop_duplicates :: "column list \<Rightarrow> frame \<Rightarrow> frame" where
  "drop_duplicates subset_cols df = drop_seen subset_cols [] df"

subsection \<open>The cleaner\<close>

text \<open>The dict handed to \<^verbatim>\<open>fillna\<close> in \<^verbatim>\<open>clean_ipl_data\<close>.\<close>

definition fill_values :: "column \<rightharpoonup> cell" where
  "fill_values =
     [Player \<mapsto> Str ''Unknown'', Role \<mapsto> Str ''Unknown'', Team \<mapsto> Str ''Unknown'',
      Matches \<mapsto> Number 0, Runs \<mapsto> Number 0, Bat_SR \<mapsto> Number 0,
      Wickets \<mapsto> Number 0, Econ \<mapsto> Number 0]"

text \<open>\<^verbatim>\<open>clean_ipl_data\<close>: fill the missing cells, make the columns of the loop numeric
  (\<^verbatim>\<open>Runs, Wickets, Bat_SR, Econ\<close>; \<^verbatim>\<open>Matches\<close> is not in the loop), drop the duplicates
  by \<^verbatim>\<open>(Player, Team)\<close>.\<close>

definition coerce_column :: "(string \<Rightarrow> real option) \<Rightarrow> frame \<Rightarrow> column \<Rightarrow> frame" where
  "coerce_column parse df col =
     setitem df col (series_fillna (Number 0) (to_numeric parse (getitem df col)))"

definition clean_ipl_data :: "(string \<Rightarrow> real option) \<Rightarrow> frame \<Rightarrow> frame" where
  "clean_ipl_data parse df =
     drop_duplicates [Player, Team]
       (foldl (coerce_column parse) (fillna fill_values df) [Runs, Wickets, Bat_SR, Econ])"

text \<open>What \<^verbatim>\<open>fillna\<close> and the loop over the columns do to one record, field by field
  (lemma \<open>normalize_frame\<close> proves it of the code): a missing text field becomes
  \<^verbatim>\<open>"Unknown"\<close>, a missing numeric field becomes 0, and in the four columns of the loop
  a text that is no number becomes 0 as well, as section 4.2 of the specification words it;
  \<^verbatim>\<open>Matches\<close> is filled only.\<close>

definition coerced :: "(string \<Rightarrow> real option) \<Rightarrow> cell \<Rightarrow> cell" where
  "coerced parse c =
     (case c of
        NA \<Rightarrow> Number 0
      | Number v \<Rightarrow> Number v
      | Str s \<Rightarrow> (case parse s of None \<Rightarrow> Number 0 | Some v \<Rightarrow> Number v))"

definition filled :: "cell \<Rightarrow> cell \<Rightarrow> cell" where
  "filled v c = (if c = NA then v else c)"

fun normalize_row :: "(string \<Rightarrow> real option) \<Rightarrow> row \<Rightarrow> row" where
  "normalize_row parse r Player = filled (Str ''Unknown'') (r Player)"
| "normalize_row parse r Role = filled (Str ''Unknown'') (r Role)"
| "normalize_row parse r Team = filled (Str ''Unknown'') (r Team)"
| "normalize_row parse r Matches = filled (Number 0) (r Matches)"
| "normalize_row parse r Runs = coerced parse (r Runs)"
| "normalize_row parse r Bat_SR = coerced parse (r Bat_SR)"
| "normalize_row parse r Wickets = coerced parse (r Wickets)"
| "normalize_row parse r Econ = coerced parse (r Econ)"

text \<open>The identity of a record, and the two readings of "clean": the invariant as the
  specification words it (all five numeric fields hold a number that is not negative), and
  the invariant the cleaner establishes (the four coerced columns hold a number).\<close>

definition identity :: "row \<Rightarrow> cell \<times> cell" where
  "identity r = (r Player, r Team)"

fun is_number :: "cell \<Rightarrow> bool" where
  "is_number (Number v) = True"
| "is_number NA = False"
| "is_number (Str s) = False"

fun is_nonneg_number :: "cell \<Rightarrow> bool" where
  "is_nonneg_number (Number v) = (0 \<le> v)"
| "is_nonneg_number NA = False"
| "is_nonneg_number (Str s) = False"

definition spec_invariant :: "frame \<Rightarrow> bool" where
  "spec_invariant df =
     (list_all (\<lambda>r. list_all (\<lambda>col. \<not> isna (r col))
                        [Player, Role, Team, Matches, Runs, Bat_SR, Wickets, Econ] \<and>
                     list_all (\<lambda>col. is_nonneg_number (r col))
                        [Matches, Runs, Bat_SR, Wickets, Econ]) df \<and>
      distinct (map identity df))"

definition cleaned :: "frame \<Rightarrow> bool" where
  "cleaned df =
     (list_all (\<lambda>r. list_all (\<lambda>col. \<not> isna (r col))
                        [Player, Role, Team, Matches, Runs, Bat_SR, Wickets, Econ] \<and>
                     list_all (\<lambda>col. is_number (r col)) [Runs, Bat_SR, Wickets, Econ]) df \<and>
      distinct (map identity df))"

subsection \<open>The cleaner on the heap\<close>

text \<open>
  Whether \<^verbatim>\<open>clean_ipl_data\<close> changes the caller's table is a question about objects, not
  about values. The heap is the list of the DataFrame objects alive; a reference is a
  position in it. \<^verbatim>\<open>df.fillna(...)\<close> and \<^verbatim>\<open>df.drop_duplicates(...)\<close> are called without
  \<^verbatim>\<open>inplace\<close> and return a new object; \<^verbatim>\<open>df[col] = ...\<close> writes into the object that the
  variable \<^verbatim>\<open>df\<close> refers to at that moment.
\<close>

type_synonym heap = "frame list"

type_synonym ref = nat

definition new_object :: "heap \<Rightarrow> frame \<Rightarrow> heap \<times> ref" where
  "new_object h v = (h @ [v], length h)"

definition heap_fillna :: "(column \<rightharpoonup> cell) \<Rightarrow> heap \<Rightarrow> ref \<Rightarrow> heap \<times> ref" where
  "heap_fillna val h df = new_object h (fillna val (h ! df))"

definition heap_setitem :: "heap \<Rightarrow> ref \<Rightarrow> column \<Rightarrow> series \<Rightarrow> heap" where
  "heap_setitem h df col s = h[df := setitem (h ! df) col s]"

definition heap_drop_duplicates :: "column list \<Rightarrow> heap \<Rightarrow> ref \<Rightarrow> heap \<times> ref" where
  "heap_drop_duplicates subset_cols h df = new_object h (drop_duplicates subset_cols (h ! df))"

definition heap_coerce_column :: "(string \<Rightarrow> real option) \<Rightarrow> ref \<Rightarrow> heap \<Rightarrow> column \<Rightarrow> heap" where
  "heap_coerce_column parse df h col =
     heap_setitem h df col (series_fillna (Number 0) (to_numeric parse (getitem (h ! df) col)))"

definition clean_ipl_data_heap :: "(string \<Rightarrow> real option) \<Rightarrow> heap \<Rightarrow> ref \<Rightarrow> heap \<times> ref" where
  "clean_ipl_data_heap parse h df =
     (case heap_fillna fill_values h df of
        (h1, df1) \<Rightarrow>
          heap_drop_duplicates [Player, Team]
            (foldl (heap_coerce_column parse df1) h1 [Runs, Wickets, Bat_SR, Econ]) df1)"

subsection \<open>The analyzer\<close>

datatype error =
    FileNotFoundError string
  | ParserError string
  | TypeError
  | ValueError
  | KeyError
  | InvalidFileException
  | UnidentifiedImageError

fun is_text :: "cell \<Rightarrow> bool" where
  "is_text (Str s) = True"
| "is_text NA = False"
| "is_text (Number v) = False"

fun number_of :: "cell \<Rightarrow> real" where
  "number_of (Number v) = v"
| "number_of NA = 0"
| "number_of (Str s) = 0"

text \<open>\<^verbatim>\<open>DataFrame.nlargest(n, col)\<close> with the default \<^verbatim>\<open>keep='first'\<close>: the first \<open>n\<close>
  records in descending order of the column, the earlier record first among equal values;
  records with a missing value come after all others. A column that is not numeric is
  refused with a \<^verbatim>\<open>TypeError\<close>.\<close>

definition nlargest :: "nat \<Rightarrow> column \<Rightarrow> frame \<Rightarrow> error + frame" where
  "nlargest n col df =
     (if list_ex (\<lambda>r. is_text (r col)) df then Inl TypeError
      else Inr (take n (sort_key (\<lambda>r. - number_of (r col)) (filter (\<lambda>r. \<not> isna (r col)) df) @
                        filter (\<lambda>r. isna (r col)) df)))"

text \<open>\<^verbatim>\<open>df[[c1, c2, c3]]\<close>: the table of the listed columns only; a record of it is the list
  of its cells in that order.\<close>

definition project :: "column list \<Rightarrow> frame \<Rightarrow> cell list list" where
  "project cols df = map (\<lambda>r. map r cols) df"

text \<open>\<^verbatim>\<open>Series.mean()\<close>: missing cells are skipped; the mean of no number is \<^verbatim>\<open>NaN\<close>
  (here \<open>None\<close>); a text in the series is a \<^verbatim>\<open>TypeError\<close>.\<close>

definition dropna :: "series \<Rightarrow> series" where
  "dropna s = filter (\<lambda>c. \<not> isna c) s"

definition mean :: "series \<Rightarrow> error + real option" where
  "mean s =
     (if list_ex is_text s then Inl TypeError
      else if dropna s = [] then Inr None
      else Inr (Some (sum_list (map number_of (dropna s)) / real (length (dropna s)))))"

text \<open>\<^verbatim>\<open>Series.replace(old, new)\<close>, and \<^verbatim>\<open>Series.astype(float)\<close>, which calls Python's
  \<^verbatim>\<open>float\<close> on a text (the parameter \<open>to_float\<close>, \<open>None\<close> where \<^verbatim>\<open>float\<close> raises
  \<^verbatim>\<open>ValueError\<close>).\<close>

definition replace :: "cell \<Rightarrow> cell \<Rightarrow> series \<Rightarrow> series" where
  "replace old new s = map (\<lambda>c. if c = old then new else c) s"

fun astype_float :: "(string \<Rightarrow> real option) \<Rightarrow> series \<Rightarrow> error + series" where
  "astype_float to_float [] = Inr []"
| "astype_float to_float (Str t # cs) =
     (case to_float t of
        None \<Rightarrow> Inl ValueError
      | Some v \<Rightarrow> (case astype_float to_float cs of Inl e \<Rightarrow> Inl e | Inr vs \<Rightarrow> Inr (Number v # vs)))"
| "astype_float to_float (c # cs) =
     (case astype_float to_float cs of Inl e \<Rightarrow> Inl e | Inr vs \<Rightarrow> Inr (c # vs))"

text \<open>The summary is a series with the two labels \<^verbatim>\<open>Avg_Batting_SR\<close> and
  \<^verbatim>\<open>Avg_Bowling_Econ\<close>.\<close>

record summary =
  Avg_Batting_SR :: "real option"
  Avg_Bowling_Econ :: "real option"

definition analyze_ipl ::
  "(string \<Rightarrow> real option) \<Rightarrow> frame \<Rightarrow> error + (cell list list \<times> cell list list \<times> summary)" where
  "analyze_ipl to_float df =
     (case nlargest 10 Runs df of
        Inl e \<Rightarrow> Inl e
      | Inr top_runs \<Rightarrow>
     (case nlargest 10 Wickets df of
        Inl e \<Rightarrow> Inl e
      | Inr top_wickets \<Rightarrow>
     (case mean (getitem df Bat_SR) of
        Inl e \<Rightarrow> Inl e
      | Inr sr \<Rightarrow>
     (case astype_float to_float (dropna (replace (Number 0) NA (getitem df Econ))) of
        Inl e \<Rightarrow> Inl e
      | Inr econ \<Rightarrow>
     (case mean econ of
        Inl e \<Rightarrow> Inl e
      | Inr ec \<Rightarrow>
          Inr (project [Player, Team, Runs] top_runs,
               project [Player, Team, Wickets] top_wickets,
               \<lparr>Avg_Batting_SR = sr, Avg_Bowling_Econ = ec\<rparr>))))))"

text \<open>
  The TopNView of the specification (sections 3 and 4.3), as a property of a view of
  records \<^verbatim>\<open>[name, team, metric]\<close> over a table: it has \<open>min n (length df)\<close> records; it
  is in descending order of the metric; among the records with one value of the metric it
  holds the first ones of the table, in the table's order (ties are broken by the original
  order); and every record of the table that is left out has a metric no larger than any
  record of the view.
\<close>

definition top_view :: "nat \<Rightarrow> column \<Rightarrow> frame \<Rightarrow> cell list list \<Rightarrow> bool" where
  "top_view n metric df view =
     (length view = min n (length df) \<and>
      sorted_wrt (\<lambda>x y. number_of (y ! 2) \<le> number_of (x ! 2)) view \<and>
      (\<forall>v. prefix (filter (\<lambda>x. x ! 2 = v) view)
                  (filter (\<lambda>x. x ! 2 = v) (project [Player, Team, metric] df))) \<and>
      (\<exists>rest. mset view + mset rest = mset (project [Player, Team, metric] df) \<and>
              (\<forall>x \<in> set view. \<forall>y \<in> set rest. number_of (y ! 2) \<le> number_of (x ! 2))))"

subsection \<open>Files: the loader and the chart embedder\<close>

text \<open>The file system maps a path to the file stored there. \<^verbatim>\<open>str.endswith\<close> compares the
  end of the path, case by case.\<close>

definition path_exists :: "(string \<rightharpoonup> 'f) \<Rightarrow> string \<Rightarrow> bool" where
  "path_exists fs file_path = (fs file_path \<noteq> None)"

definition endswith :: "string \<Rightarrow> string \<Rightarrow> bool" where
  "endswith s ending =
     (length ending \<le> length s \<and> drop (length s - length ending) s = ending)"

text \<open>\<^verbatim>\<open>load_ipl_data\<close>. The two readers \<^verbatim>\<open>pd.read_excel\<close> and \<^verbatim>\<open>pd.read_csv\<close> belong
  to pandas and are parameters: each reads the path in the file system and answers a table
  or an error.\<close>

definition load_ipl_data ::
  "((string \<rightharpoonup> 'f) \<Rightarrow> string \<Rightarrow> error + 'df) \<Rightarrow> ((string \<rightharpoonup> 'f) \<Rightarrow> string \<Rightarrow> error + 'df) \<Rightarrow>
   (string \<rightharpoonup> 'f) \<Rightarrow> string \<Rightarrow> error + 'df" where
  "load_ipl_data read_excel read_csv fs file_path =
     (if \<not> path_exists fs file_path
      then Inl (FileNotFoundError (file_path @ '' does not exist.''))
      else if endswith file_path ''.xlsx'' then read_excel fs file_path
      else read_csv fs file_path)"

text \<open>A reader is faithful to the file system when it reports a missing file only for a
  path that holds none.\<close>

definition only_missing_not_found :: "((string \<rightharpoonup> 'f) \<Rightarrow> string \<Rightarrow> error + 'df) \<Rightarrow> bool" where
  "only_missing_not_found reader =
     (\<forall>fs file_path msg. reader fs file_path = Inl (FileNotFoundError msg) \<longrightarrow> fs file_path = None)"

















subsection \<open>Sample inputs\<close>

fun sample_parse :: "string \<Rightarrow> real option" where
  "sample_parse s = (if s = ''12'' then Some 12 else None)"

fun sample_row1 :: row where
  "sample_row1 Player = NA"
| "sample_row1 Role = Str ''Batter''"
| "sample_row1 Team = Str ''T1''"
| "sample_row1 Matches = Number 3"
| "sample_row1 Runs = Str ''n/a''"
| "sample_row1 Bat_SR = Number 120"
| "sample_row1 Wickets = Str ''12''"
| "sample_row1 Econ = NA"

fun sample_row2 :: row where
  "sample_row2 Player = Str ''Unknown''"
| "sample_row2 Role = NA"
| "sample_row2 Team = Str ''T1''"
| "sample_row2 Matches = NA"
| "sample_row2 Runs = Number 40"
| "sample_row2 Bat_SR = Number 90"
| "sample_row2 Wickets = Number 1"
| "sample_row2 Econ = Number 8"

fun negative_row :: row where
  "negative_row Player = Str ''A''"
| "negative_row Role = Str ''Bowler''"
| "negative_row Team = Str ''T1''"
| "negative_row Matches = Number 4"
| "negative_row Runs = Number (- 5)"
| "negative_row Bat_SR = Number 0"
| "negative_row Wickets = Number 2"
| "negative_row Econ = Number 6"

fun text_matches_row :: row where
  "text_matches_row Player = Str ''A''"
| "text_matches_row Role = Str ''Bowler''"
| "text_matches_row Team = Str ''T1''"
| "text_matches_row Matches = Str ''ten''"
| "text_matches_row Runs = Number 5"
| "text_matches_row Bat_SR = Number 0"
| "text_matches_row Wickets = Number 2"
| "text_matches_row Econ = Number 6"

text \<open>The two records of the example in section 8 of the specification.\<close>

fun example_row_a :: row where
  "example_row_a Player = Str ''A''"
| "example_row_a Role = Str ''Batter''"
| "example_row_a Team = Str ''T1''"
| "example_row_a Matches = Number 10"
| "example_row_a Runs = Number 50"
| "example_row_a Bat_SR = Number 100"
| "example_row_a Wickets = Number 0"
| "example_row_a Econ = Number 0"

fun example_row_b :: row where
  "example_row_b Player = Str ''B''"
| "example_row_b Role = Str ''Bowler''"
| "example_row_b Team = Str ''T1''"
| "example_row_b Matches = Number 12"
| "example_row_b Runs = Number 80"
| "example_row_b Bat_SR = Number 140"
| "example_row_b Wickets = Number 2"
| "example_row_b Econ = Number (15 / 2)"

text \<open>A player whose name is the text \<^verbatim>\<open>Unknown\<close>, and two records without a name, all of
  the same team.\<close>

fun named_unknown_row :: row where
  "named_unknown_row Player = Str ''Unknown''"
| "named_unknown_row Role = Str ''Batter''"
| "named_unknown_row Team = Str ''T1''"
| "named_unknown_row Matches = Number 1"
| "named_unknown_row Runs = Number 10"
| "named_unknown_row Bat_SR = Number 100"
| "named_unknown_row Wickets = Number 0"
| "named_unknown_row Econ = Number 0"

fun nameless_row1 :: row where
  "nameless_row1 Player = NA"
| "nameless_row1 Role = Str ''Batter''"
| "nameless_row1 Team = Str ''T1''"
| "nameless_row1 Matches = Number 2"
| "nameless_row1 Runs = Number 20"
| "nameless_row1 Bat_SR = Number 100"
| "nameless_row1 Wickets = Number 0"
| "nameless_row1 Econ = Number 0"

fun nameless_row2 :: row where
  "nameless_row2 Player = NA"
| "nameless_row2 Role = Str ''Bowler''"
| "nameless_row2 Team = Str ''T1''"
| "nameless_row2 Matches = Number 3"
| "nameless_row2 Runs = Number 30"
| "nameless_row2 Bat_SR = Number 100"
| "nameless_row2 Wickets = Number 4"
| "nameless_row2 Econ = Number 7"

text \<open>A third record that ties with A on runs and with B on wickets.\<close>

fun example_row_c :: row where
  "example_row_c Player = Str ''C''"
| "example_row_c Role = Str ''Allrounder''"
| "example_row_c Team = Str ''T2''"
| "example_row_c Matches = Number 9"
| "example_row_c Runs = Number 50"
| "example_row_c Bat_SR = Number 120"
| "example_row_c Wickets = Number 2"
| "example_row_c Econ = Number 8"






text \<open>Input files for the loader: a file holds a table, as a workbook or as delimited text;
  each sample reader reads its own kind.\<close>

datatype sample_file = Sheet frame | Delimited frame

fun sample_read_excel :: "(string \<rightharpoonup> sample_file) \<Rightarrow> string \<Rightarrow> error + frame" where
  "sample_read_excel fs file_path =
     (case fs file_path of
        None \<Rightarrow> Inl (FileNotFoundError file_path)
      | Some (Sheet df) \<Rightarrow> Inr df
      | Some (Delimited df) \<Rightarrow> Inl (ParserError ''not a workbook''))"

fun sample_read_csv :: "(string \<rightharpoonup> sample_file) \<Rightarrow> string \<Rightarrow> error + frame" where
  "sample_read_csv fs file_path =
     (case fs file_path of
        None \<Rightarrow> Inl (FileNotFoundError file_path)
      | Some (Delimited df) \<Rightarrow> Inr df
      | Some (Sheet df) \<Rightarrow> Inl (ParserError ''not delimited text''))"

definition sample_inputs :: "string \<rightharpoonup> sample_file" where
  "sample_inputs =
     [''ipl_data.xlsx'' \<mapsto> Sheet [example_row_a, example_row_b],
      ''ipl_data.csv'' \<mapsto> Delimited [example_row_a]]"

section \<open>The cleaner: proofs\<close>

lemma coerce_column_map:
  "coerce_column parse df col = map (\<lambda>r. r(col := coerced parse (r col))) df"
proof -
  have c: "\<And>c. (if isna (to_numeric_cell parse c) then Number 0 else to_numeric_cell parse c) = coerced parse c"
    subgoal for c by (cases c) (auto simp: coerced_def split: option.splits)
    done
  show ?thesis
    by (simp add: coerce_column_def setitem_def getitem_def series_fillna_def to_numeric_def
        zip_map2 zip_same_conv_map o_def c)
qed

lemma normalize_frame:
  "foldl (coerce_column parse) (fillna fill_values df) [Runs, Wickets, Bat_SR, Econ] =
     map (normalize_row parse) df"
proof -
  have "\<And>r. ((\<lambda>col. case fill_values col of None \<Rightarrow> r col
             | Some v \<Rightarrow> (if isna (r col) then v else r col))
            (Runs := coerced parse (if isna (r Runs) then Number 0 else r Runs),
             Wickets := coerced parse (if isna (r Wickets) then Number 0 else r Wickets),
             Bat_SR := coerced parse (if isna (r Bat_SR) then Number 0 else r Bat_SR),
             Econ := coerced parse (if isna (r Econ) then Number 0 else r Econ))) = normalize_row parse r"
  proof -
    fix r
    have i: "\<And>c v. (if isna c then v else c) = filled v c"
      subgoal for c v by (cases c) (simp_all add: filled_def)
      done
    have cf: "\<And>c. coerced parse (filled (Number 0) c) = coerced parse c"
      subgoal for c by (cases c) (simp_all add: filled_def coerced_def)
      done
    show "?thesis r"
      apply (rule ext)
      subgoal for col
        by (cases col) (simp_all add: fill_values_def i cf)
      done
  qed
  then show ?thesis
    by (simp add: coerce_column_map fillna_def o_def fill_values_def)
qed

lemma clean_ipl_data_eq:
  "clean_ipl_data parse df = drop_seen [Player, Team] [] (map (normalize_row parse) df)"
  by (simp only: clean_ipl_data_def drop_duplicates_def normalize_frame)

lemma drop_seen_subseq: "subseq (drop_seen ks seen rs) rs"
  by (induction rs arbitrary: seen) auto

lemma drop_seen_unseen: "r \<in> set (drop_seen ks seen rs) \<Longrightarrow> row_key ks r \<notin> set seen"
proof (induction rs arbitrary: seen)
  case Nil
  then show ?case by simp
next
  case (Cons a rs)
  show ?case
  proof (cases "row_key ks a \<in> set seen")
    case True
    then show ?thesis using Cons by simp
  next
    case False
    then have "r = a \<or> r \<in> set (drop_seen ks (row_key ks a # seen) rs)"
      using Cons.prems by simp
    then show ?thesis
    proof
      assume "r = a"
      then show ?thesis using False by simp
    next
      assume "r \<in> set (drop_seen ks (row_key ks a # seen) rs)"
      then have "row_key ks r \<notin> set (row_key ks a # seen)" by (rule Cons.IH)
      then show ?thesis by simp
    qed
  qed
qed

lemma drop_seen_set: "set (drop_seen ks seen rs) \<subseteq> set rs"
  by (induction rs arbitrary: seen) auto

lemma drop_seen_distinct: "distinct (map (row_key ks) (drop_seen ks seen rs))"
proof (induction rs arbitrary: seen)
  case Nil
  show ?case by simp
next
  case (Cons r rs)
  show ?case
  proof (cases "row_key ks r \<in> set seen")
    case True
    then show ?thesis using Cons.IH by simp
  next
    case False
    have "row_key ks r \<noteq> row_key ks x" if "x \<in> set (drop_seen ks (row_key ks r # seen) rs)" for x
    proof
      assume e: "row_key ks r = row_key ks x"
      have "row_key ks x \<notin> set (row_key ks r # seen)" using that by (rule drop_seen_unseen)
      then show False using e by simp
    qed
    then have "row_key ks r \<notin> (row_key ks) ` set (drop_seen ks (row_key ks r # seen) rs)"
      by blast
    then show ?thesis using False Cons.IH [of "row_key ks r # seen"] by simp
  qed
qed

lemma drop_seen_find:
  "find (\<lambda>x. row_key ks x = k) (drop_seen ks seen rs) =
     (if k \<in> set seen then None else find (\<lambda>x. row_key ks x = k) rs)"
proof (induction rs arbitrary: seen)
  case Nil
  show ?case by simp
next
  case (Cons r rs)
  show ?case
  proof (cases "row_key ks r \<in> set seen")
    case True
    then show ?thesis using Cons.IH [of seen] by auto
  next
    case False
    then show ?thesis using Cons.IH [of "row_key ks r # seen"] by auto
  qed
qed

lemma drop_seen_same:
  "distinct (map (row_key ks) rs) \<Longrightarrow> \<forall>r\<in>set rs. row_key ks r \<notin> set seen \<Longrightarrow>
     drop_seen ks seen rs = rs"
proof (induction rs arbitrary: seen)
  case Nil
  show ?case by simp
next
  case (Cons r rs)
  have "row_key ks x \<noteq> row_key ks r" if "x \<in> set rs" for x
    using Cons.prems(1) that by (metis distinct.simps(2) image_eqI list.simps(9) set_map)
  then have "\<forall>x\<in>set rs. row_key ks x \<notin> set (row_key ks r # seen)"
    using Cons.prems(2) by simp
  then show ?case using Cons by simp
qed

lemma identity_keys:
  "(row_key [Player, Team] r = row_key [Player, Team] r') = (identity r = identity r')"
  by (simp add: identity_def row_key_def)

lemma distinct_identity:
  "distinct (map (row_key [Player, Team]) rs) = distinct (map identity rs)"
  by (simp only: distinct_map inj_on_def identity_keys)

lemma normalize_row_not_missing: "normalize_row parse r col \<noteq> NA"
  by (cases col) (auto simp: filled_def coerced_def split: cell.splits option.splits)

lemma normalize_row_number:
  "col \<in> {Runs, Bat_SR, Wickets, Econ} \<Longrightarrow> \<exists>v. normalize_row parse r col = Number v"
  by (auto simp: coerced_def split: cell.splits option.splits)

lemma clean_rows_normalized:
  "set (clean_ipl_data parse df) \<subseteq> normalize_row parse ` set df"
  using drop_seen_set [of "[Player, Team]" "[]" "map (normalize_row parse) df"]
  by (simp add: clean_ipl_data_eq)

lemma clean_distinct: "distinct (map identity (clean_ipl_data parse df))"
  using drop_seen_distinct [of "[Player, Team]" "[]" "map (normalize_row parse) df"]
  by (simp only: clean_ipl_data_eq distinct_identity)

lemma clean_find:
  "find (\<lambda>x. identity x = k) (clean_ipl_data parse df) =
     find (\<lambda>x. identity x = k) (map (normalize_row parse) df)"
proof -
  have "find (\<lambda>x. row_key [Player, Team] x = [fst k, snd k]) (clean_ipl_data parse df) =
     find (\<lambda>x. row_key [Player, Team] x = [fst k, snd k]) (map (normalize_row parse) df)"
    by (simp only: clean_ipl_data_eq drop_seen_find) simp
  moreover have "\<And>x. (row_key [Player, Team] x = [fst k, snd k]) = (identity x = k)"
    by (auto simp: identity_def row_key_def)
  ultimately show ?thesis by simp
qed

text \<open>
  Claim C1, as the code has it. In the table the cleaner returns no field of any record is
  missing; each of \<^verbatim>\<open>Runs\<close>, \<^verbatim>\<open>Bat_SR\<close>, \<^verbatim>\<open>Wickets\<close> and \<^verbatim>\<open>Econ\<close> holds a
  number; no two records share the identity \<^verbatim>\<open>(Player, Team)\<close>. The records are the
  normalised records of the input in their original order, and for every identity the record
  that stays is the first normalised record with that identity. Normalisation turns a
  missing or unparseable value of a coerced column into 0 and keeps a number as it is,
  negative or not; \<^verbatim>\<open>Matches\<close> is filled where it is missing and is not coerced.
\<close>

theorem clean_ipl_data_invariant:
  "(\<forall>r \<in> set (clean_ipl_data parse df). \<forall>col. r col \<noteq> NA) \<and>
   (\<forall>r \<in> set (clean_ipl_data parse df). \<forall>col \<in> {Runs, Bat_SR, Wickets, Econ}. \<exists>v. r col = Number v) \<and>
   distinct (map identity (clean_ipl_data parse df)) \<and>
   subseq (clean_ipl_data parse df) (map (normalize_row parse) df) \<and>
   (\<forall>k. find (\<lambda>x. identity x = k) (clean_ipl_data parse df) =
        find (\<lambda>x. identity x = k) (map (normalize_row parse) df))"
proof -
  have a: "\<forall>r \<in> set (clean_ipl_data parse df). \<forall>col. r col \<noteq> NA"
    using clean_rows_normalized [of parse df] normalize_row_not_missing by blast
  have b: "\<forall>r \<in> set (clean_ipl_data parse df). \<forall>col \<in> {Runs, Bat_SR, Wickets, Econ}. \<exists>v. r col = Number v"
    using clean_rows_normalized [of parse df] normalize_row_number by blast
  have c: "subseq (clean_ipl_data parse df) (map (normalize_row parse) df)"
    by (simp only: clean_ipl_data_eq drop_seen_subseq)
  show ?thesis using a b c by (simp only: clean_distinct clean_find simp_thms)
qed

text \<open>The theorem at a table of two records that normalise to the same identity.\<close>

lemma sample_clean:
  "clean_ipl_data sample_parse [sample_row1, sample_row2] = [normalize_row sample_parse sample_row1]"
  by (simp add: clean_ipl_data_eq filled_def row_key_def)

theorem clean_ipl_data_invariant_witness:
  "clean_ipl_data sample_parse [sample_row1, sample_row2] = [normalize_row sample_parse sample_row1] \<and>
   identity (normalize_row sample_parse sample_row1) = (Str ''Unknown'', Str ''T1'') \<and>
   identity (normalize_row sample_parse sample_row2) = (Str ''Unknown'', Str ''T1'') \<and>
   normalize_row sample_parse sample_row1 Runs = Number 0 \<and>
   normalize_row sample_parse sample_row1 Wickets = Number 12 \<and>
   normalize_row sample_parse sample_row1 Econ = Number 0 \<and>
   distinct (map identity (clean_ipl_data sample_parse [sample_row1, sample_row2])) \<and>
   subseq (clean_ipl_data sample_parse [sample_row1, sample_row2])
          (map (normalize_row sample_parse) [sample_row1, sample_row2])"
  using clean_ipl_data_invariant [of sample_parse "[sample_row1, sample_row2]"]
  by (simp add: sample_clean identity_def filled_def coerced_def)

text \<open>
  Claim C1 as the specification words it asks for numbers that are not negative in all five
  numeric fields. A negative number of runs passes the cleaner unchanged, and so does a text
  in \<^verbatim>\<open>Matches\<close>, which the loop over the columns leaves out.
\<close>

theorem clean_ipl_data_nonneg_counterexample:
  "\<not> spec_invariant (clean_ipl_data sample_parse [negative_row]) \<and>
   \<not> spec_invariant (clean_ipl_data sample_parse [text_matches_row])"
  by (simp add: clean_ipl_data_eq spec_invariant_def filled_def coerced_def row_key_def)

lemma normalize_row_fixed:
  assumes "\<forall>col. r col \<noteq> NA" and "\<forall>col \<in> {Runs, Bat_SR, Wickets, Econ}. is_number (r col)"
  shows "normalize_row parse r = r"
proof (rule ext)
  fix col
  have n: "coerced parse (r c) = r c" if "c \<in> {Runs, Bat_SR, Wickets, Econ}" for c
    using assms(2) that by (cases "r c") (auto simp: coerced_def)
  show "normalize_row parse r col = r col"
    using assms(1) n by (cases col) (simp_all add: filled_def)
qed

lemma cleaned_rows:
  "cleaned df \<Longrightarrow> r \<in> set df \<Longrightarrow>
     (\<forall>col. r col \<noteq> NA) \<and> (\<forall>col \<in> {Runs, Bat_SR, Wickets, Econ}. is_number (r col))"
proof -
  assume c: "cleaned df" and r: "r \<in> set df"
  have i: "\<And>c. (\<not> isna c) = (c \<noteq> NA)"
    subgoal for c by (cases c) simp_all
    done
  have a: "list_all (\<lambda>col. r col \<noteq> NA) [Player, Role, Team, Matches, Runs, Bat_SR, Wickets, Econ]"
    and b: "list_all (\<lambda>col. is_number (r col)) [Runs, Bat_SR, Wickets, Econ]"
    using c r by (auto simp: cleaned_def list_all_iff i)
  have "r col \<noteq> NA" for col
    using a by (cases col) simp_all
  then show ?thesis using b by simp
qed

lemma cleaned_fixed: "cleaned df \<Longrightarrow> clean_ipl_data parse df = df"
proof -
  assume c: "cleaned df"
  have "map (normalize_row parse) df = df"
    using cleaned_rows [OF c] normalize_row_fixed by (simp add: map_idI)
  moreover have "distinct (map (row_key [Player, Team]) df)"
    using c by (simp add: distinct_identity cleaned_def)
  ultimately show ?thesis
    by (simp add: clean_ipl_data_eq drop_seen_same)
qed

lemma is_number_iff: "is_number c = (\<exists>v. c = Number v)"
  by (cases c) simp_all

lemma cleaned_clean: "cleaned (clean_ipl_data parse df)"
proof -
  have i: "\<And>c. (\<not> isna c) = (c \<noteq> NA)"
    subgoal for c by (cases c) simp_all
    done
  have "r col \<noteq> NA" if "r \<in> set (clean_ipl_data parse df)" for r col
    using clean_rows_normalized [of parse df] normalize_row_not_missing that by blast
  moreover have "is_number (r col)"
    if "r \<in> set (clean_ipl_data parse df)" "col \<in> {Runs, Bat_SR, Wickets, Econ}" for r col
    using clean_rows_normalized [of parse df] normalize_row_number [of col parse] that
    by (auto simp: is_number_iff)
  ultimately show ?thesis
    by (simp add: cleaned_def list_all_iff i clean_distinct)
qed

lemma spec_invariant_cleaned: "spec_invariant df \<Longrightarrow> cleaned df"
proof -
  have n: "\<And>c. is_nonneg_number c \<Longrightarrow> is_number c"
    subgoal for c by (cases c) simp_all
    done
  show "spec_invariant df \<Longrightarrow> cleaned df"
    by (auto simp: spec_invariant_def cleaned_def list_all_iff n)
qed

text \<open>
  Claim C4. Cleaning twice gives what cleaning once gives, and a table that already
  satisfies the invariant comes back as it is. This holds for the invariant the cleaner
  establishes (\<open>cleaned\<close>) and so for the stronger one of the specification
  (\<open>spec_invariant\<close>).
\<close>

theorem clean_ipl_data_idempotent:
  "clean_ipl_data parse (clean_ipl_data parse df) = clean_ipl_data parse df \<and>
   (cleaned df \<longrightarrow> clean_ipl_data parse df = df) \<and>
   (spec_invariant df \<longrightarrow> clean_ipl_data parse df = df)"
  using cleaned_fixed [of df parse] cleaned_fixed [OF cleaned_clean, of parse parse df]
    spec_invariant_cleaned [of df]
  by blast

text \<open>The theorem at the example table of the specification, at a clean table with a
  negative number, and at a table that cleaning changes.\<close>

theorem clean_ipl_data_idempotent_witness:
  "spec_invariant [example_row_a, example_row_b] \<and>
   cleaned [negative_row] \<and>
   clean_ipl_data sample_parse [example_row_a, example_row_b] = [example_row_a, example_row_b] \<and>
   clean_ipl_data sample_parse [negative_row] = [negative_row] \<and>
   clean_ipl_data sample_parse (clean_ipl_data sample_parse [sample_row1, sample_row2]) =
     clean_ipl_data sample_parse [sample_row1, sample_row2]"
proof -
  have a: "spec_invariant [example_row_a, example_row_b]"
    by (simp add: spec_invariant_def identity_def)
  have b: "cleaned [negative_row]"
    by (simp add: cleaned_def)
  show ?thesis
    using a b clean_ipl_data_idempotent [of sample_parse "[example_row_a, example_row_b]"]
      clean_ipl_data_idempotent [of sample_parse "[negative_row]"]
      clean_ipl_data_idempotent [of sample_parse "[sample_row1, sample_row2]"]
    by simp
qed

lemma distinct_filter_find:
  "distinct (map f xs) \<Longrightarrow> find (\<lambda>x. f x = k) xs = Some s \<Longrightarrow> filter (\<lambda>x. f x = k) xs = [s]"
proof (induction xs)
  case Nil
  then show ?case by simp
next
  case (Cons x xs)
  show ?case
  proof (cases "f x = k")
    case True
    have "f x \<notin> f ` set xs" using Cons.prems(1) by simp
    then have "\<forall>y\<in>set xs. f y \<noteq> k" using True by blast
    then have "filter (\<lambda>x. f x = k) xs = []" by (simp add: filter_empty_conv)
    then show ?thesis using True Cons.prems(2) by simp
  next
    case False
    then show ?thesis using Cons by simp
  qed
qed

lemma clean_survivor:
  "find (\<lambda>x. identity x = k) (map (normalize_row parse) df) = Some s \<Longrightarrow>
     filter (\<lambda>x. identity x = k) (clean_ipl_data parse df) = [s]"
  using distinct_filter_find [of identity "clean_ipl_data parse df" k s]
  by (simp add: clean_distinct clean_find)

lemma nameless_identity:
  "r Player = NA \<Longrightarrow>
     identity (normalize_row parse r) = (Str ''Unknown'', filled (Str ''Unknown'') (r Team))"
  by (simp add: identity_def filled_def)

text \<open>
  Claim C10, as the code has it. Missing values are filled before the duplicates are dropped:
  two records at positions \<open>i < j\<close> without a name and with the same team both get the
  identity \<^verbatim>\<open>("Unknown", team)\<close> (a missing team is \<^verbatim>\<open>"Unknown"\<close> too), and exactly one
  record with that identity is left: the first record of the table that normalises to this
  identity. It is the record at \<open>i\<close> when no record before \<open>i\<close> has that identity after
  normalisation.
\<close>

theorem clean_fills_before_dedup:
  assumes "i < j" and "j < length df"
    and "(df ! i) Player = NA" and "(df ! j) Player = NA" and "(df ! i) Team = (df ! j) Team"
  shows "identity (normalize_row parse (df ! i)) =
           (Str ''Unknown'', filled (Str ''Unknown'') ((df ! i) Team)) \<and>
         identity (normalize_row parse (df ! j)) =
           (Str ''Unknown'', filled (Str ''Unknown'') ((df ! i) Team)) \<and>
         (\<exists>s. find (\<lambda>x. identity x = (Str ''Unknown'', filled (Str ''Unknown'') ((df ! i) Team)))
                 (map (normalize_row parse) df) = Some s \<and>
              filter (\<lambda>x. identity x = (Str ''Unknown'', filled (Str ''Unknown'') ((df ! i) Team)))
                 (clean_ipl_data parse df) = [s]) \<and>
         ((\<forall>k<i. identity (normalize_row parse (df ! k)) \<noteq>
                   (Str ''Unknown'', filled (Str ''Unknown'') ((df ! i) Team))) \<longrightarrow>
            filter (\<lambda>x. identity x = (Str ''Unknown'', filled (Str ''Unknown'') ((df ! i) Team)))
              (clean_ipl_data parse df) = [normalize_row parse (df ! i)])"
proof -
  let ?K = "(Str ''Unknown'', filled (Str ''Unknown'') ((df ! i) Team))"
  let ?n = "map (normalize_row parse) df"
  have il: "i < length df" using assms(1,2) by simp
  have ki: "identity (normalize_row parse (df ! i)) = ?K"
    using nameless_identity [of "df ! i" parse] assms(3) by simp
  have kj: "identity (normalize_row parse (df ! j)) = ?K"
    using nameless_identity [of "df ! j" parse] assms(4,5) by simp
  have "normalize_row parse (df ! i) \<in> set ?n" using il by simp
  then have "find (\<lambda>x. identity x = ?K) ?n \<noteq> None"
    using ki by (auto simp: find_None_iff)
  then obtain s where s: "find (\<lambda>x. identity x = ?K) ?n = Some s" by auto
  have first: "filter (\<lambda>x. identity x = ?K) (clean_ipl_data parse df) = [normalize_row parse (df ! i)]"
    if "\<forall>k<i. identity (normalize_row parse (df ! k)) \<noteq> ?K"
  proof -
    have "find (\<lambda>x. identity x = ?K) ?n = Some (normalize_row parse (df ! i))"
      unfolding find_Some_iff
      using il ki that by (intro exI [of _ i]) simp
    then show ?thesis by (rule clean_survivor)
  qed
  show ?thesis
    using ki kj s clean_survivor [OF s] first by blast
qed

text \<open>The theorem at a table with a named record followed by two nameless ones of the
  same team: the first nameless record stays, the second goes.\<close>

theorem clean_fills_before_dedup_witness:
  "filter (\<lambda>x. identity x = (Str ''Unknown'', Str ''T1''))
      (clean_ipl_data sample_parse [example_row_a, nameless_row1, nameless_row2]) =
     [normalize_row sample_parse nameless_row1] \<and>
   getitem (clean_ipl_data sample_parse [example_row_a, nameless_row1, nameless_row2]) Runs =
     [Number 50, Number 20]"
proof -
  have k: "\<forall>k<Suc 0. identity (normalize_row sample_parse ([example_row_a, nameless_row1, nameless_row2] ! k))
     \<noteq> (Str ''Unknown'', Str ''T1'')"
    by (simp add: identity_def filled_def)
  have "filter (\<lambda>x. identity x = (Str ''Unknown'', Str ''T1''))
      (clean_ipl_data sample_parse [example_row_a, nameless_row1, nameless_row2]) =
     [normalize_row sample_parse nameless_row1]"
    using clean_fills_before_dedup [of 1 2 "[example_row_a, nameless_row1, nameless_row2]" sample_parse] k
    by (simp add: filled_def)
  moreover have "getitem (clean_ipl_data sample_parse [example_row_a, nameless_row1, nameless_row2]) Runs =
     [Number 50, Number 20]"
    by (simp add: clean_ipl_data_eq getitem_def row_key_def filled_def coerced_def)
  ultimately show ?thesis by simp
qed

text \<open>
  Claim C10 as it is worded says that the first of the two nameless records stays. When a
  record before them carries the name \<^verbatim>\<open>Unknown\<close> as a text, and the same team, neither
  of the two stays: the table keeps the record with 10 runs only.
\<close>

theorem clean_first_nameless_counterexample:
  "nameless_row1 Player = NA \<and> nameless_row2 Player = NA \<and>
   nameless_row1 Team = nameless_row2 Team \<and>
   nameless_row1 Runs = Number 20 \<and> nameless_row2 Runs = Number 30 \<and>
   getitem (clean_ipl_data sample_parse [named_unknown_row, nameless_row1, nameless_row2]) Runs =
     [Number 10]"
  by (simp add: clean_ipl_data_eq getitem_def row_key_def filled_def coerced_def)

section \<open>The cleaner on the heap: proofs\<close>

lemma heap_coerce_new:
  "heap_coerce_column parse (length h) (h @ [f]) col = h @ [coerce_column parse f col]"
  by (simp add: heap_coerce_column_def heap_setitem_def coerce_column_def)

lemma clean_ipl_data_heap_eq:
  "clean_ipl_data_heap parse h df =
     (h @ [foldl (coerce_column parse) (fillna fill_values (h ! df)) [Runs, Wickets, Bat_SR, Econ],
           clean_ipl_data parse (h ! df)],
      Suc (length h))"
  by (simp add: clean_ipl_data_heap_def heap_fillna_def new_object_def heap_coerce_new
      heap_drop_duplicates_def clean_ipl_data_def nth_append)

text \<open>
  Claim C5. The cleaner returns a new table and leaves the caller's table, and every other
  table alive before the call, as it was: the column assignments of the loop go to the
  object \<^verbatim>\<open>fillna\<close> returned, not to the argument.
\<close>

theorem clean_ipl_data_pure:
  assumes "df < length h"
  shows "\<exists>h' df'. clean_ipl_data_heap parse h df = (h', df') \<and>
           length h \<le> df' \<and> df' < length h' \<and> df' \<noteq> df \<and>
           h' ! df' = clean_ipl_data parse (h ! df) \<and>
           h' ! df = h ! df \<and>
           (\<forall>other < length h. h' ! other = h ! other)"
  using assms by (simp add: clean_ipl_data_heap_eq nth_append)

text \<open>The theorem on a heap that holds one table with two records.\<close>

theorem clean_ipl_data_pure_witness:
  "fst (clean_ipl_data_heap sample_parse [[sample_row1, sample_row2]] 0) ! 0 = [sample_row1, sample_row2] \<and>
   snd (clean_ipl_data_heap sample_parse [[sample_row1, sample_row2]] 0) = 2 \<and>
   fst (clean_ipl_data_heap sample_parse [[sample_row1, sample_row2]] 0) ! 2 =
     clean_ipl_data sample_parse [sample_row1, sample_row2]"
  using clean_ipl_data_pure [of 0 "[[sample_row1, sample_row2]]" sample_parse]
  by (auto simp: clean_ipl_data_heap_eq)

section \<open>The analyzer: proofs\<close>

lemma isna_iff: "isna c = (c = NA)"
  by (cases c) simp_all

lemma numbers_no_text: "\<forall>c\<in>set s. is_number c \<Longrightarrow> \<not> list_ex is_text s"
proof -
  have "\<And>c. is_number c \<Longrightarrow> \<not> is_text c"
    subgoal for c by (cases c) simp_all
    done
  then show "\<forall>c\<in>set s. is_number c \<Longrightarrow> \<not> list_ex is_text s"
    by (auto simp: list_ex_iff)
qed

lemma numbers_dropna: "\<forall>c\<in>set s. is_number c \<Longrightarrow> dropna s = s"
proof -
  have "\<And>c. is_number c \<Longrightarrow> \<not> isna c"
    subgoal for c by (cases c) simp_all
    done
  then show "\<forall>c\<in>set s. is_number c \<Longrightarrow> dropna s = s"
    by (simp add: dropna_def filter_id_conv)
qed

lemma numbers_astype_float: "\<forall>c\<in>set s. is_number c \<Longrightarrow> astype_float to_float s = Inr s"
proof (induction s)
  case Nil
  show ?case by simp
next
  case (Cons c cs)
  then show ?case by (cases c) simp_all
qed

lemma mean_numbers:
  "\<forall>c\<in>set s. is_number c \<Longrightarrow>
     mean s = Inr (if s = [] then None else Some (sum_list (map number_of s) / real (length s)))"
  by (simp add: mean_def numbers_no_text numbers_dropna)

lemma nlargest_numbers:
  assumes "\<forall>r\<in>set df. is_number (r col)"
  shows "nlargest n col df = Inr (take n (sort_key (\<lambda>r. - number_of (r col)) df))"
proof -
  have t: "\<not> list_ex (\<lambda>r. is_text (r col)) df"
    using numbers_no_text [of "map (\<lambda>r. r col) df"] assms by (simp add: list_ex_iff)
  have "\<And>c. is_number c \<Longrightarrow> \<not> isna c"
    subgoal for c by (cases c) simp_all
    done
  then have n: "\<forall>r\<in>set df. \<not> isna (r col)" using assms by blast
  have "filter (\<lambda>r. \<not> isna (r col)) df = df" "filter (\<lambda>r. isna (r col)) df = []"
    using n by (simp_all add: filter_id_conv filter_empty_conv)
  then show ?thesis using t by (simp add: nlargest_def)
qed

lemma econ_nonzero:
  "dropna (replace (Number 0) NA (getitem df Econ)) =
     getitem (filter (\<lambda>r. r Econ \<noteq> Number 0 \<and> r Econ \<noteq> NA) df) Econ"
  by (induction df) (auto simp: dropna_def replace_def getitem_def isna_iff)

lemma sorted_take_drop:
  assumes "sorted (map k xs)"
  shows "\<forall>a\<in>set (take n xs). \<forall>b\<in>set (drop n xs). k a \<le> k b"
proof -
  have "sorted (map k (take n xs) @ map k (drop n xs))"
    using assms by (simp flip: map_append)
  then show ?thesis by (auto simp: sorted_append)
qed

lemma stable_filter:
  assumes "\<forall>r\<in>set xs. is_number (r col)"
  shows "filter (\<lambda>r. r col = v) (sort_key (\<lambda>r. - number_of (r col)) xs) =
         filter (\<lambda>r. r col = v) xs"
proof (cases v)
  case (Number w)
  have e: "(r col = v) = (- number_of (r col) = - w)" if "r \<in> set xs" for r
    using assms that Number by (cases "r col") auto
  have "filter (\<lambda>r. r col = v) (sort_key (\<lambda>r. - number_of (r col)) xs) =
        filter (\<lambda>r. - number_of (r col) = - w) (sort_key (\<lambda>r. - number_of (r col)) xs)"
    using e by (intro filter_cong) auto
  also have "\<dots> = filter (\<lambda>r. - number_of (r col) = - w) xs"
    by (rule sort_key_stable)
  also have "\<dots> = filter (\<lambda>r. r col = v) xs"
    using e by (intro filter_cong) auto
  finally show ?thesis .
next
  case NA
  have "r col \<noteq> v" if "r \<in> set xs" for r
    using assms that NA by (cases "r col") auto
  then show ?thesis by (simp add: filter_empty_conv [THEN iffD2])
next
  case (Str t)
  have "r col \<noteq> v" if "r \<in> set xs" for r
    using assms that Str by (cases "r col") auto
  then show ?thesis by (simp add: filter_empty_conv [THEN iffD2])
qed

lemma project_metric: "x \<in> set (project [Player, Team, col] df) \<Longrightarrow> \<exists>r\<in>set df. x ! 2 = r col"
  by (auto simp: project_def)

lemma filter_project:
  "filter (\<lambda>x. x ! 2 = v) (project [Player, Team, col] df) =
     project [Player, Team, col] (filter (\<lambda>r. r col = v) df)"
  by (simp add: project_def filter_map o_def)

lemma top_view_numbers:
  assumes "\<forall>r\<in>set df. is_number (r col)"
  shows "top_view n col df
           (project [Player, Team, col] (take n (sort_key (\<lambda>r. - number_of (r col)) df)))"
proof -
  let ?S = "sort_key (\<lambda>r. - number_of (r col)) df"
  let ?p = "project [Player, Team, col]"
  have len: "length (?p (take n ?S)) = min n (length df)"
    by (simp add: project_def min.commute)
  have srt: "sorted (map (\<lambda>r. - number_of (r col)) ?S)"
    by (rule sorted_sort_key)
  have ord: "\<forall>a\<in>set (take n ?S). \<forall>b\<in>set (drop n ?S). number_of (b col) \<le> number_of (a col)"
    using sorted_take_drop [OF srt, of n] by simp
  have "sorted (map (\<lambda>r. - number_of (r col)) (take n ?S))"
    using sorted_wrt_take [OF srt, of n] by (simp add: take_map)
  then have desc: "sorted_wrt (\<lambda>x y. number_of (y ! 2) \<le> number_of (x ! 2)) (?p (take n ?S))"
    by (simp add: project_def sorted_wrt_map)
  have stab: "prefix (filter (\<lambda>x. x ! 2 = v) (?p (take n ?S))) (filter (\<lambda>x. x ! 2 = v) (?p df))" for v
  proof -
    have "prefix (take n ?S) ?S" by (rule take_is_prefix)
    then have "prefix (filter (\<lambda>r. r col = v) (take n ?S)) (filter (\<lambda>r. r col = v) ?S)"
      by (rule filter_mono_prefix)
    then have "prefix (filter (\<lambda>r. r col = v) (take n ?S)) (filter (\<lambda>r. r col = v) df)"
      by (simp add: stable_filter [OF assms])
    then have "prefix (?p (filter (\<lambda>r. r col = v) (take n ?S))) (?p (filter (\<lambda>r. r col = v) df))"
      unfolding project_def by (rule map_mono_prefix)
    then show ?thesis by (simp only: filter_project)
  qed
  have "mset (take n ?S) + mset (drop n ?S) = mset df"
    by (simp flip: mset_append)
  then have "image_mset (\<lambda>r. map r [Player, Team, col]) (mset (take n ?S) + mset (drop n ?S)) =
      image_mset (\<lambda>r. map r [Player, Team, col]) (mset df)"
    by (rule arg_cong)
  then have m: "mset (?p (take n ?S)) + mset (?p (drop n ?S)) = mset (?p df)"
    by (simp only: project_def mset_map image_mset_union)
  have o: "\<forall>x\<in>set (?p (take n ?S)). \<forall>y\<in>set (?p (drop n ?S)). number_of (y ! 2) \<le> number_of (x ! 2)"
  proof (intro ballI)
    fix x y
    assume "x \<in> set (?p (take n ?S))" and "y \<in> set (?p (drop n ?S))"
    then obtain a b where ab: "a \<in> set (take n ?S)" "x ! 2 = a col" "b \<in> set (drop n ?S)" "y ! 2 = b col"
      using project_metric by blast
    then show "number_of (y ! 2) \<le> number_of (x ! 2)" using ord by simp
  qed
  have rest: "\<exists>rest. mset (?p (take n ?S)) + mset rest = mset (?p df) \<and>
      (\<forall>x\<in>set (?p (take n ?S)). \<forall>y\<in>set rest. number_of (y ! 2) \<le> number_of (x ! 2))"
    using m o by (intro exI [of _ "?p (drop n ?S)"] conjI)
  show ?thesis
    unfolding top_view_def by (intro conjI allI len desc stab rest)
qed

lemma cleaned_numbers:
  "cleaned df \<Longrightarrow> col \<in> {Runs, Bat_SR, Wickets, Econ} \<Longrightarrow> \<forall>r\<in>set df. is_number (r col)"
  using cleaned_rows by blast

lemma cleaned_econ:
  assumes "cleaned df"
  shows "astype_float to_float (dropna (replace (Number 0) NA (getitem df Econ))) =
           Inr (getitem (filter (\<lambda>r. r Econ \<noteq> Number 0) df) Econ)"
proof -
  have n: "\<forall>r\<in>set df. is_number (r Econ)"
    using cleaned_numbers [OF assms, of Econ] by simp
  have "r Econ \<noteq> NA" if "r \<in> set df" for r
    using n that by (cases "r Econ") auto
  then have "filter (\<lambda>r. r Econ \<noteq> Number 0 \<and> r Econ \<noteq> NA) df = filter (\<lambda>r. r Econ \<noteq> Number 0) df"
    by (intro filter_cong) auto
  then have e: "dropna (replace (Number 0) NA (getitem df Econ)) =
      getitem (filter (\<lambda>r. r Econ \<noteq> Number 0) df) Econ"
    by (simp add: econ_nonzero)
  have "\<forall>c\<in>set (getitem (filter (\<lambda>r. r Econ \<noteq> Number 0) df) Econ). is_number c"
    using n by (simp add: getitem_def)
  then show ?thesis unfolding e by (rule numbers_astype_float)
qed

lemma analyze_cleaned:
  assumes "cleaned df"
  shows "analyze_ipl to_float df =
     Inr (project [Player, Team, Runs] (take 10 (sort_key (\<lambda>r. - number_of (r Runs)) df)),
          project [Player, Team, Wickets] (take 10 (sort_key (\<lambda>r. - number_of (r Wickets)) df)),
          \<lparr>Avg_Batting_SR =
             (if df = [] then None
              else Some (sum_list (map (\<lambda>r. number_of (r Bat_SR)) df) / real (length df))),
           Avg_Bowling_Econ =
             (if filter (\<lambda>r. r Econ \<noteq> Number 0) df = [] then None
              else Some (sum_list (map (\<lambda>r. number_of (r Econ)) (filter (\<lambda>r. r Econ \<noteq> Number 0) df)) /
                         real (length (filter (\<lambda>r. r Econ \<noteq> Number 0) df))))\<rparr>)"
proof -
  have r: "nlargest 10 Runs df = Inr (take 10 (sort_key (\<lambda>r. - number_of (r Runs)) df))"
    using cleaned_numbers [OF assms, of Runs] by (simp add: nlargest_numbers)
  have w: "nlargest 10 Wickets df = Inr (take 10 (sort_key (\<lambda>r. - number_of (r Wickets)) df))"
    using cleaned_numbers [OF assms, of Wickets] by (simp add: nlargest_numbers)
  have "\<forall>c\<in>set (getitem df Bat_SR). is_number c"
    using cleaned_numbers [OF assms, of Bat_SR] by (simp add: getitem_def)
  then have s: "mean (getitem df Bat_SR) =
      Inr (if df = [] then None
           else Some (sum_list (map (\<lambda>r. number_of (r Bat_SR)) df) / real (length df)))"
    by (simp add: mean_numbers) (simp add: getitem_def o_def)
  have "\<forall>c\<in>set (getitem (filter (\<lambda>r. r Econ \<noteq> Number 0) df) Econ). is_number c"
    using cleaned_numbers [OF assms, of Econ] by (simp add: getitem_def)
  then have e: "mean (getitem (filter (\<lambda>r. r Econ \<noteq> Number 0) df) Econ) =
      Inr (if filter (\<lambda>r. r Econ \<noteq> Number 0) df = [] then None
           else Some (sum_list (map (\<lambda>r. number_of (r Econ)) (filter (\<lambda>r. r Econ \<noteq> Number 0) df)) /
                      real (length (filter (\<lambda>r. r Econ \<noteq> Number 0) df))))"
    by (simp add: mean_numbers) (simp add: getitem_def o_def)
  show ?thesis
    by (simp only: analyze_ipl_def r w s e cleaned_econ [OF assms] sum.case)
qed

text \<open>
  Claim C2. On a cleaned table the analyzer returns, and its \<^verbatim>\<open>Avg_Bowling_Econ\<close> is the
  mean of \<^verbatim>\<open>Econ\<close> over the records whose \<^verbatim>\<open>Econ\<close> is not 0: the sum over these
  records divided by their number. When no record has a nonzero \<^verbatim>\<open>Econ\<close> the value is
  \<^verbatim>\<open>NaN\<close> (\<open>None\<close>), not 0 and not an error.
\<close>

theorem avg_bowling_econ_nonzero:
  assumes "cleaned df"
  shows "\<exists>top_runs top_wickets s.
           analyze_ipl to_float df = Inr (top_runs, top_wickets, s) \<and>
           Avg_Bowling_Econ s =
             (if filter (\<lambda>r. r Econ \<noteq> Number 0) df = [] then None
              else Some (sum_list (map (\<lambda>r. number_of (r Econ)) (filter (\<lambda>r. r Econ \<noteq> Number 0) df)) /
                         real (length (filter (\<lambda>r. r Econ \<noteq> Number 0) df)))) \<and>
           ((\<forall>r\<in>set df. r Econ = Number 0) \<longrightarrow> Avg_Bowling_Econ s = None)"
  by (simp add: analyze_cleaned [OF assms] filter_empty_conv)

text \<open>The theorem at the example of the specification (A has economy 0 and is left out, the
  mean is 7.5), and at the table that holds A alone.\<close>

theorem avg_bowling_econ_nonzero_witness:
  "cleaned [example_row_a, example_row_b] \<and> cleaned [example_row_a] \<and>
   (\<exists>top_runs top_wickets s.
      analyze_ipl sample_parse [example_row_a, example_row_b] = Inr (top_runs, top_wickets, s) \<and>
      Avg_Bowling_Econ s = Some (15 / 2)) \<and>
   (\<exists>top_runs top_wickets s.
      analyze_ipl sample_parse [example_row_a] = Inr (top_runs, top_wickets, s) \<and>
      Avg_Bowling_Econ s = None)"
proof -
  have a: "cleaned [example_row_a, example_row_b]" and b: "cleaned [example_row_a]"
    by (simp_all add: cleaned_def identity_def)
  show ?thesis
    using a b avg_bowling_econ_nonzero [OF a, of sample_parse]
      avg_bowling_econ_nonzero [OF b, of sample_parse]
    by simp
qed

text \<open>
  Claim C3. On a cleaned table the analyzer returns, and both views are top views in the
  sense of \<open>top_view\<close>: \<open>min 10 (length df)\<close> records, in descending order of the metric,
  ties in the order of the table, nothing larger left out; every record of a view is the
  name, the team and the metric of a record of the table.
\<close>

theorem top_views_sorted_stable:
  assumes "cleaned df"
  shows "\<exists>top_runs top_wickets s.
           analyze_ipl to_float df = Inr (top_runs, top_wickets, s) \<and>
           top_view 10 Runs df top_runs \<and>
           top_view 10 Wickets df top_wickets \<and>
           (\<forall>x\<in>set top_runs. \<exists>r\<in>set df. x = [r Player, r Team, r Runs]) \<and>
           (\<forall>x\<in>set top_wickets. \<exists>r\<in>set df. x = [r Player, r Team, r Wickets])"
proof -
  have p: "\<forall>x\<in>set (project [Player, Team, col] (take 10 (sort_key k df))).
      \<exists>r\<in>set df. x = [r Player, r Team, r col]" for col and k :: "row \<Rightarrow> real"
    using set_take_subset [of 10 "sort_key k df"] by (auto simp: project_def)
  show ?thesis
    using top_view_numbers [OF cleaned_numbers [OF assms, of Runs], of 10]
      top_view_numbers [OF cleaned_numbers [OF assms, of Wickets], of 10] p
    by (simp add: analyze_cleaned [OF assms])
qed

text \<open>The theorem at a table where A and C tie on runs and B and C tie on wickets.\<close>

lemma example_analysis:
  "analyze_ipl sample_parse [example_row_a, example_row_b, example_row_c] =
     Inr ([[Str ''B'', Str ''T1'', Number 80], [Str ''A'', Str ''T1'', Number 50],
           [Str ''C'', Str ''T2'', Number 50]],
          [[Str ''B'', Str ''T1'', Number 2], [Str ''C'', Str ''T2'', Number 2],
           [Str ''A'', Str ''T1'', Number 0]],
          \<lparr>Avg_Batting_SR = Some 120, Avg_Bowling_Econ = Some (31 / 4)\<rparr>)"
  by (simp add: analyze_ipl_def nlargest_def sort_key_def project_def mean_def dropna_def
      replace_def getitem_def)

theorem top_views_sorted_stable_witness:
  "cleaned [example_row_a, example_row_b, example_row_c] \<and>
   analyze_ipl sample_parse [example_row_a, example_row_b, example_row_c] =
     Inr ([[Str ''B'', Str ''T1'', Number 80], [Str ''A'', Str ''T1'', Number 50],
           [Str ''C'', Str ''T2'', Number 50]],
          [[Str ''B'', Str ''T1'', Number 2], [Str ''C'', Str ''T2'', Number 2],
           [Str ''A'', Str ''T1'', Number 0]],
          \<lparr>Avg_Batting_SR = Some 120, Avg_Bowling_Econ = Some (31 / 4)\<rparr>) \<and>
   top_view 10 Runs [example_row_a, example_row_b, example_row_c]
     [[Str ''B'', Str ''T1'', Number 80], [Str ''A'', Str ''T1'', Number 50],
      [Str ''C'', Str ''T2'', Number 50]] \<and>
   top_view 10 Wickets [example_row_a, example_row_b, example_row_c]
     [[Str ''B'', Str ''T1'', Number 2], [Str ''C'', Str ''T2'', Number 2],
      [Str ''A'', Str ''T1'', Number 0]]"
proof -
  have a: "cleaned [example_row_a, example_row_b, example_row_c]"
    by (simp add: cleaned_def identity_def)
  show ?thesis
    using a top_views_sorted_stable [OF a, of sample_parse]
    by (simp add: example_analysis)
qed

text \<open>
  Claim C9. The empty table is clean, it is what the cleaner returns for the empty table, and
  the analyzer does not raise on it: both views are empty and both averages are \<^verbatim>\<open>NaN\<close>.
\<close>

theorem analyze_ipl_empty:
  "cleaned [] \<and> clean_ipl_data parse [] = [] \<and>
   analyze_ipl to_float [] =
     Inr ([], [], \<lparr>Avg_Batting_SR = None, Avg_Bowling_Econ = None\<rparr>)"
  by (simp add: cleaned_def clean_ipl_data_eq analyze_ipl_def nlargest_def project_def mean_def
      dropna_def replace_def getitem_def)

text \<open>The analyzer after the cleaner on the empty table.\<close>

theorem analyze_ipl_empty_witness:
  "analyze_ipl sample_parse (clean_ipl_data sample_parse []) =
     Inr ([], [], \<lparr>Avg_Batting_SR = None, Avg_Bowling_Econ = None\<rparr>)"
  using analyze_ipl_empty [of sample_parse sample_parse] by simp

section \<open>The chart embedder: proofs\<close>














section \<open>The loader: proofs\<close>

lemma sample_readers_faithful:
  "only_missing_not_found sample_read_excel \<and> only_missing_not_found sample_read_csv"
proof -
  have "fs file_path = None" if "sample_read_excel fs file_path = Inl (FileNotFoundError msg)"
    for fs file_path msg
  proof (cases "fs file_path")
    case None
    then show ?thesis .
  next
    case (Some f)
    then show ?thesis using that by (cases f) simp_all
  qed
  moreover have "fs file_path = None" if "sample_read_csv fs file_path = Inl (FileNotFoundError msg)"
    for fs file_path msg
  proof (cases "fs file_path")
    case None
    then show ?thesis .
  next
    case (Some f)
    then show ?thesis using that by (cases f) simp_all
  qed
  ultimately show ?thesis
    unfolding only_missing_not_found_def by blast
qed

text \<open>
  Claim C7. For a path that does not exist the loader raises \<^verbatim>\<open>FileNotFoundError\<close>. For a
  path that exists its answer is the answer of the reader, unchanged: \<^verbatim>\<open>read_excel\<close> when
  the path ends in \<^verbatim>\<open>.xlsx\<close>, \<^verbatim>\<open>read_csv\<close> for every other path. With readers that report
  a missing file only when the file is missing, the loader raises \<^verbatim>\<open>FileNotFoundError\<close>
  exactly when the path does not exist. The loader reads the file system and writes
  nothing: it is a function of the file system and the path.
\<close>

theorem load_ipl_data_cases:
  "(fs file_path = None \<longrightarrow>
      load_ipl_data read_excel read_csv fs file_path =
        Inl (FileNotFoundError (file_path @ '' does not exist.''))) \<and>
   (fs file_path \<noteq> None \<longrightarrow>
      load_ipl_data read_excel read_csv fs file_path =
        (if endswith file_path ''.xlsx'' then read_excel fs file_path else read_csv fs file_path)) \<and>
   (only_missing_not_found read_excel \<and> only_missing_not_found read_csv \<longrightarrow>
      ((\<exists>msg. load_ipl_data read_excel read_csv fs file_path = Inl (FileNotFoundError msg)) =
       (fs file_path = None)))"
proof -
  have a: "fs file_path = None \<longrightarrow>
      load_ipl_data read_excel read_csv fs file_path =
        Inl (FileNotFoundError (file_path @ '' does not exist.''))"
    by (simp add: load_ipl_data_def path_exists_def)
  have b: "fs file_path \<noteq> None \<longrightarrow>
      load_ipl_data read_excel read_csv fs file_path =
        (if endswith file_path ''.xlsx'' then read_excel fs file_path else read_csv fs file_path)"
    by (simp add: load_ipl_data_def path_exists_def)
  have "fs file_path = None"
    if "only_missing_not_found read_excel" "only_missing_not_found read_csv"
      and "load_ipl_data read_excel read_csv fs file_path = Inl (FileNotFoundError msg)" for msg
  proof (rule ccontr)
    assume e: "fs file_path \<noteq> None"
    then have "read_excel fs file_path = Inl (FileNotFoundError msg) \<or>
        read_csv fs file_path = Inl (FileNotFoundError msg)"
      using that(3) by (simp add: load_ipl_data_def path_exists_def split: if_splits)
    then show False
    proof
      assume "read_excel fs file_path = Inl (FileNotFoundError msg)"
      then have "fs file_path = None"
        using that(1) unfolding only_missing_not_found_def by auto
      then show False using e by simp
    next
      assume "read_csv fs file_path = Inl (FileNotFoundError msg)"
      then have "fs file_path = None"
        using that(2) unfolding only_missing_not_found_def by auto
      then show False using e by simp
    qed
  qed
  then have c: "only_missing_not_found read_excel \<and> only_missing_not_found read_csv \<longrightarrow>
      ((\<exists>msg. load_ipl_data read_excel read_csv fs file_path = Inl (FileNotFoundError msg)) =
       (fs file_path = None))"
    using a by blast
  show ?thesis using a b c by (intro conjI)
qed

text \<open>The theorem at a workbook, a delimited text and a path that does not exist.\<close>

lemma endswith_xlsx: "endswith ''ipl_data.xlsx'' ''.xlsx''"
  by (simp add: endswith_def)

lemma endswith_csv: "\<not> endswith ''ipl_data.csv'' ''.xlsx''"
  by (simp add: endswith_def)

theorem load_ipl_data_cases_witness:
  "load_ipl_data sample_read_excel sample_read_csv sample_inputs ''ipl_data.xlsx'' =
     Inr [example_row_a, example_row_b] \<and>
   load_ipl_data sample_read_excel sample_read_csv sample_inputs ''ipl_data.csv'' =
     Inr [example_row_a] \<and>
   load_ipl_data sample_read_excel sample_read_csv sample_inputs ''missing.xlsx'' =
     Inl (FileNotFoundError ''missing.xlsx does not exist.'') \<and>
   (\<nexists>msg. load_ipl_data sample_read_excel sample_read_csv sample_inputs ''ipl_data.csv'' =
      Inl (FileNotFoundError msg))"
proof -
  have x: "sample_inputs ''ipl_data.xlsx'' = Some (Sheet [example_row_a, example_row_b])"
    and t: "sample_inputs ''ipl_data.csv'' = Some (Delimited [example_row_a])"
    and u: "sample_inputs ''missing.xlsx'' = None"
    by (simp_all add: sample_inputs_def)
  have x': "sample_inputs ''ipl_data.xlsx'' \<noteq> None" and t': "sample_inputs ''ipl_data.csv'' \<noteq> None"
    using x t by simp_all
  have a: "load_ipl_data sample_read_excel sample_read_csv sample_inputs ''ipl_data.xlsx'' =
     Inr [example_row_a, example_row_b]"
    using load_ipl_data_cases [of sample_inputs "''ipl_data.xlsx''" sample_read_excel sample_read_csv,
        THEN conjunct2, THEN conjunct1, rule_format, OF x']
    by (simp only: endswith_xlsx if_True sample_read_excel.simps x option.case sample_file.case)
  have b: "load_ipl_data sample_read_excel sample_read_csv sample_inputs ''ipl_data.csv'' =
     Inr [example_row_a]"
    using load_ipl_data_cases [of sample_inputs "''ipl_data.csv''" sample_read_excel sample_read_csv,
        THEN conjunct2, THEN conjunct1, rule_format, OF t']
    by (simp only: endswith_csv if_False sample_read_csv.simps t option.case sample_file.case)
  have c: "load_ipl_data sample_read_excel sample_read_csv sample_inputs ''missing.xlsx'' =
     Inl (FileNotFoundError ''missing.xlsx does not exist.'')"
    using load_ipl_data_cases [of sample_inputs "''missing.xlsx''" sample_read_excel sample_read_csv,
        THEN conjunct1, rule_format, OF u]
    by simp
  have d: "\<nexists>msg. load_ipl_data sample_read_excel sample_read_csv sample_inputs ''ipl_data.csv'' =
      Inl (FileNotFoundError msg)"
    using load_ipl_data_cases [of sample_inputs "''ipl_data.csv''" sample_read_excel sample_read_csv,
        THEN conjunct2, THEN conjunct2, rule_format, OF sample_readers_faithful] t'
    by (simp only: simp_thms)
  show ?thesis using a b c d by (intro conjI)
qed

end
